theory Spec2Isabelle
  imports Complex_Main "HOL-Library.Sublist"
begin

section \<open>Data model of the chat component\<close>

text \<open>
  The component under study is \<open>ChatInterface\<close> (a React function component) together with
  the two service functions \<open>sendQuery\<close> and \<open>submitFeedback\<close> it calls.  A JavaScript
  string is modelled as a HOL string, one character per code unit, which covers the code
  units below 256.  JavaScript numbers that reach the component are finite doubles and
  are modelled by the rational number they denote.
  A property that is \<open>undefined\<close> on a JavaScript object is \<open>None\<close>.
\<close>

type_synonym number = rat

record citation =
  source_id :: "string option"
  file_name :: string
  page_number :: int
  relevance_score :: number

text \<open>
  A message object as \<open>handleSend\<close> builds it.  \<open>isError\<close> is only ever written as
  \<open>true\<close>; \<open>False\<close> stands for the property being absent.
\<close>

record message =
  role :: string
  content :: "string option"
  timestamp :: string
  citations :: "citation list option"
  confidence :: "number option"
  isError :: bool

text \<open>The JSON bodies posted by \<open>sendQuery\<close> and \<open>submitFeedback\<close>.\<close>

record query_body =
  query :: string
  conversation_history :: "message list"
  top_k :: nat

record feedback_body =
  fb_query :: string
  fb_answer :: "string option"
  fb_rating :: string

datatype http_request =
    PostChatQuery query_body
  | PostChatFeedback feedback_body

text \<open>
  What \<open>response.data\<close> can be once the POST resolves: \<open>null\<close>/\<open>undefined\<close>, on which a
  property read throws, or any other value, on which the reads of \<open>answer\<close>, \<open>citations\<close>
  and \<open>confidence\<close> give the property or \<open>undefined\<close>.
\<close>

datatype response_data =
    Nullish
  | Data (resp_answer: "string option") (resp_citations: "citation list option")
      (resp_confidence: "number option")

datatype js_error = NetworkError | HttpError nat | TypeError

text \<open>
  The outcome of \<open>api.post\<close>: the promise rejects (no connection, or a status outside 2xx)
  or resolves with the parsed body.
\<close>

datatype post_result = Rejected js_error | Resolved response_data

datatype effect =
    Request http_request
  | Alert string
  | ConsoleError js_error
  | Download string string

text \<open>
  The four \<open>useState\<close> cells of the component, and the trace of what the component has done
  to the outside world (requests issued, alerts shown, errors logged), oldest first.
\<close>

record chat_state =
  messages :: "message list"
  input :: string
  loading :: bool
  language :: string
  effects :: "effect list"

section \<open>Strings\<close>

text \<open>
  \<open>String.prototype.trim\<close> removes white space and line terminators from both ends.
  Among the code units below 256 these are the tab, line feed, vertical tab, form feed,
  carriage return, space and no-break space (\<open>U+00A0\<close>).
\<close>

definition is_space :: "char \<Rightarrow> bool" where
  "is_space c \<longleftrightarrow>
     c \<in> set [CHR 0x09, CHR 0x0A, CHR 0x0B, CHR 0x0C, CHR 0x0D, CHR 0x20, CHR 0xA0]"

definition trim :: "string \<Rightarrow> string" where
  "trim s = rev (dropWhile is_space (rev (dropWhile is_space s)))"

section \<open>services/api.js\<close>

definition sendQuery :: "string \<Rightarrow> message list \<Rightarrow> query_body" where
  "sendQuery q conversationHistory =
     \<lparr>query = q, conversation_history = conversationHistory, top_k = 5\<rparr>"

definition submitFeedback :: "string \<Rightarrow> string option \<Rightarrow> string \<Rightarrow> feedback_body" where
  "submitFeedback q a r = \<lparr>fb_query = q, fb_answer = a, fb_rating = r\<rparr>"

text \<open>\<open>return response.data\<close> after the awaited POST; a rejection passes through.\<close>

definition await_post :: "post_result \<Rightarrow> js_error + response_data" where
  "await_post r = (case r of Rejected e \<Rightarrow> Inl e | Resolved d \<Rightarrow> Inr d)"

section \<open>handleSend\<close>

definition offline_notice :: string where
  "offline_notice = ''Backend is offline. Please start the backend server.''"

definition apology :: string where
  "apology = ''Sorry, I encountered an error. Please ensure documents are uploaded and backend server is running.''"

definition userMessage :: "string \<Rightarrow> string \<Rightarrow> message" where
  "userMessage text now =
     \<lparr>role = ''user'', content = Some text, timestamp = now,
      citations = None, confidence = None, isError = False\<rparr>"

definition languagePrompt :: "string \<Rightarrow> string" where
  "languagePrompt lang =
     (if lang \<noteq> ''English'' then ''Please answer in '' @ lang @ ''. '' else [])"

text \<open>
  A handler closes over the values of the render that created it (\<open>snap\<close>, and the prop
  \<open>isOnline\<close>), while \<open>setMessages (prev => ...)\<close> acts on the state \<open>st\<close> current when it
  runs.  \<open>textArg = None\<close> is the call \<open>handleSend()\<close>, whose parameter defaults to \<open>input\<close>.

  \<open>handleSend_guard\<close> is lines 29 to 34: \<open>None\<close> lets the call through, \<open>Some st'\<close> is the
  state at the early return.
\<close>

definition handleSend_text :: "chat_state \<Rightarrow> string option \<Rightarrow> string" where
  "handleSend_text snap textArg = (case textArg of None \<Rightarrow> input snap | Some t \<Rightarrow> t)"

definition handleSend_guard ::
  "bool \<Rightarrow> chat_state \<Rightarrow> string \<Rightarrow> chat_state \<Rightarrow> chat_state option" where
  "handleSend_guard isOnline snap text st =
     (if trim text = [] \<or> loading snap then Some st
      else if \<not> isOnline then Some (st\<lparr>effects := effects st @ [Alert offline_notice]\<rparr>)
      else None)"

text \<open>Lines 36 to 44: the user message is appended, the input cleared, the lock taken.\<close>

definition handleSend_echo :: "string \<Rightarrow> string \<Rightarrow> chat_state \<Rightarrow> chat_state" where
  "handleSend_echo text now st =
     st\<lparr>messages := messages st @ [userMessage text now], input := [], loading := True\<rparr>"

text \<open>Lines 47 to 51, up to the \<open>await\<close>: the request is built and posted.\<close>

definition handleSend_post :: "chat_state \<Rightarrow> string \<Rightarrow> chat_state \<Rightarrow> query_body \<times> chat_state" where
  "handleSend_post snap text st =
     (let body = sendQuery (languagePrompt (language snap) @ text) (messages snap)
      in (body, st\<lparr>effects := effects st @ [Request (PostChatQuery body)]\<rparr>))"

text \<open>
  The synchronous part of a call, up to the suspension at \<open>await\<close>: the state it leaves and
  the body it posted, if it got that far.
\<close>

definition handleSend_begin ::
  "bool \<Rightarrow> chat_state \<Rightarrow> string option \<Rightarrow> string \<Rightarrow> chat_state \<Rightarrow> query_body option \<times> chat_state" where
  "handleSend_begin isOnline snap textArg now st =
     (let text = handleSend_text snap textArg in
      case handleSend_guard isOnline snap text st of
        Some st' \<Rightarrow> (None, st')
      | None \<Rightarrow>
          (let (body, st') = handleSend_post snap text (handleSend_echo text now st)
           in (Some body, st')))"

definition assistantMessage :: "response_data \<Rightarrow> string \<Rightarrow> js_error + message" where
  "assistantMessage response now =
     (case response of
        Nullish \<Rightarrow> Inl TypeError
      | Data a c k \<Rightarrow>
          Inr \<lparr>role = ''assistant'', content = a, timestamp = now,
               citations = c, confidence = k, isError = False\<rparr>)"

definition errorMessage :: "string \<Rightarrow> message" where
  "errorMessage now =
     \<lparr>role = ''assistant'', content = Some apology, timestamp = now,
      citations = None, confidence = None, isError = True\<rparr>"

text \<open>The rest of the \<open>try\<close> block once the POST has settled (lines 51 to 61).\<close>

definition handleSend_try :: "post_result \<Rightarrow> string \<Rightarrow> chat_state \<Rightarrow> js_error + chat_state" where
  "handleSend_try res now st =
     (case await_post res of
        Inl e \<Rightarrow> Inl e
      | Inr response \<Rightarrow>
          (case assistantMessage response now of
             Inl e \<Rightarrow> Inl e
           | Inr m \<Rightarrow> Inr (st\<lparr>messages := messages st @ [m]\<rparr>)))"

text \<open>The \<open>catch\<close> block (lines 62 to 72).\<close>

definition handleSend_catch :: "js_error \<Rightarrow> string \<Rightarrow> chat_state \<Rightarrow> chat_state" where
  "handleSend_catch e now st =
     st\<lparr>effects := effects st @ [ConsoleError e], messages := messages st @ [errorMessage now]\<rparr>"

text \<open>The \<open>finally\<close> block (lines 73 to 75).\<close>

definition handleSend_finally :: "chat_state \<Rightarrow> chat_state" where
  "handleSend_finally st = st\<lparr>loading := False\<rparr>"

text \<open>
  The continuation of a suspended call.  \<open>Inl\<close> would be an exception leaving \<open>handleSend\<close>.
\<close>

definition handleSend_resume :: "post_result \<Rightarrow> string \<Rightarrow> chat_state \<Rightarrow> js_error + chat_state" where
  "handleSend_resume res now st =
     (case handleSend_try res now st of
        Inr st' \<Rightarrow> Inr (handleSend_finally st')
      | Inl e \<Rightarrow> Inr (handleSend_finally (handleSend_catch e now st)))"

text \<open>
  A call awaited to completion with nothing in between: \<open>now\<close> and \<open>now'\<close> are the clock
  readings for the two timestamps, \<open>res\<close> is what the backend did.
\<close>

definition handleSend ::
  "bool \<Rightarrow> chat_state \<Rightarrow> string option \<Rightarrow> string \<Rightarrow> post_result \<Rightarrow> string \<Rightarrow> chat_state
     \<Rightarrow> js_error + chat_state" where
  "handleSend isOnline snap textArg now res now' st =
     (case handleSend_begin isOnline snap textArg now st of
        (None, st') \<Rightarrow> Inr st'
      | (Some body, st') \<Rightarrow> handleSend_resume res now' st')"

text \<open>
  \<open>ask(text, language)\<close>: the language is selected, the component renders, and the handler
  of that render is called with \<open>text\<close>.
\<close>

definition ask ::
  "bool \<Rightarrow> string \<Rightarrow> string \<Rightarrow> string \<Rightarrow> post_result \<Rightarrow> string \<Rightarrow> chat_state
     \<Rightarrow> js_error + chat_state" where
  "ask isOnline text lang now res now' st =
     (let st0 = st\<lparr>language := lang\<rparr> in handleSend isOnline st0 (Some text) now res now' st0)"

definition requests :: "chat_state \<Rightarrow> http_request list" where
  "requests st = List.map_filter (\<lambda>e. case e of Request r \<Rightarrow> Some r | _ \<Rightarrow> None) (effects st)"

text \<open>The state of a freshly mounted component: the initial values given to \<open>useState\<close>.\<close>

definition initial_state :: chat_state where
  "initial_state =
     \<lparr>messages = [], input = [], loading = False, language = ''English'', effects = []\<rparr>"

text \<open>
  Calls issued strictly one at a time: each is made on the handler of the render that
  follows the previous call's completion, and awaited before the next.
\<close>

record ask_call =
  ask_text :: string
  ask_language :: string
  ask_now :: string
  ask_result :: post_result
  ask_now' :: string

fun ask_all :: "bool \<Rightarrow> ask_call list \<Rightarrow> chat_state \<Rightarrow> js_error + chat_state" where
  "ask_all isOnline [] st = Inr st"
| "ask_all isOnline (c # cs) st =
     (case ask isOnline (ask_text c) (ask_language c) (ask_now c) (ask_result c) (ask_now' c) st of
        Inl e \<Rightarrow> Inl e
      | Inr st' \<Rightarrow> ask_all isOnline cs st')"

text \<open>
  The assistant message a completed call leaves, as the specification words it: built
  from the response on success, the apology otherwise.
\<close>

definition reply :: "post_result \<Rightarrow> string \<Rightarrow> message" where
  "reply res now =
     (case res of
        Resolved (Data a c k) \<Rightarrow>
          \<lparr>role = ''assistant'', content = a, timestamp = now,
           citations = c, confidence = k, isError = False\<rparr>
      | _ \<Rightarrow> errorMessage now)"

definition exchange :: "ask_call \<Rightarrow> message list" where
  "exchange c = [userMessage (ask_text c) (ask_now c), reply (ask_result c) (ask_now' c)]"

text \<open>
  The property names \<open>JSON.stringify\<close> writes for a message: a property whose value is
  \<open>undefined\<close> is left out.
\<close>

definition json_keys :: "message \<Rightarrow> string list" where
  "json_keys m =
     [''role''] @ (if content m = None then [] else [''content'']) @
     (if citations m = None then [] else [''citations'']) @
     (if confidence m = None then [] else [''confidence'']) @
     [''timestamp''] @ (if isError m then [''isError''] else [])"

section \<open>handleFeedback\<close>

text \<open>\<open>xs.slice(-1)\<close> and \<open>xs[0]\<close>.\<close>

definition slice_last :: "'a list \<Rightarrow> 'a list" where
  "slice_last xs = (if xs = [] then [] else [last xs])"

definition first :: "'a list \<Rightarrow> 'a option" where
  "first xs = (case xs of [] \<Rightarrow> None | x # _ \<Rightarrow> Some x)"

text \<open>Line 79: \<open>messages.filter(m => m.role === 'user').slice(-1)[0]?.content || ''\<close>.\<close>

definition userQuery :: "message list \<Rightarrow> string" where
  "userQuery msgs =
     (case first (slice_last (filter (\<lambda>m. role m = ''user'') msgs)) of
        None \<Rightarrow> []
      | Some m \<Rightarrow> (case content m of None \<Rightarrow> [] | Some c \<Rightarrow> if c = [] then [] else c))"

definition handleFeedback_begin ::
  "chat_state \<Rightarrow> message \<Rightarrow> string \<Rightarrow> chat_state \<Rightarrow> feedback_body \<times> chat_state" where
  "handleFeedback_begin snap msg rating st =
     (let body = submitFeedback (userQuery (messages snap)) (content msg) rating
      in (body, st\<lparr>effects := effects st @ [Request (PostChatFeedback body)]\<rparr>))"

definition handleFeedback_resume :: "post_result \<Rightarrow> chat_state \<Rightarrow> chat_state" where
  "handleFeedback_resume res st =
     (case await_post res of
        Inr _ \<Rightarrow> st\<lparr>effects := effects st @ [Alert ''Thank you for your feedback!'']\<rparr>
      | Inl e \<Rightarrow> st\<lparr>effects := effects st @ [ConsoleError e]\<rparr>)"

text \<open>
  The reading of the feedback rule in the specification, for the message at position \<open>i\<close>
  of the transcript: the content of the most recent user message before that position,
  or the empty string.
\<close>

definition preceding_user_query :: "message list \<Rightarrow> nat \<Rightarrow> string" where
  "preceding_user_query msgs i =
     (case rev (filter (\<lambda>m. role m = ''user'') (take i msgs)) of
        [] \<Rightarrow> []
      | m # _ \<Rightarrow> (case content m of None \<Rightarrow> [] | Some c \<Rightarrow> c))"

section \<open>Numbers and their text\<close>

fun digits :: "nat \<Rightarrow> string" where
  "digits n =
     (if n < 10 then [''0123456789'' ! n]
      else digits (n div 10) @ [''0123456789'' ! (n mod 10)])"

declare digits.simps [simp del]

text \<open>
  An integer inside a template literal (\<open>Number::toString\<close>): the sign, then every digit
  below \<open>10^21\<close>, and from there on the exponent notation, taken as the parameter \<open>big\<close>.
  The other numbers the component prints, \<open>messages.length\<close> and \<open>Date.now()\<close>, stay
  below \<open>2^32\<close> and \<open>8.64 * 10^15\<close>, so \<open>digits\<close> is their text.
\<close>

definition show_int :: "(rat \<Rightarrow> string) \<Rightarrow> int \<Rightarrow> string" where
  "show_int big i =
     (let s = (if i < 0 then ''-'' else []);
          a = (if i < 0 then - i else i)
      in s @ (if 10 ^ 21 \<le> a then big (of_int a) else digits (nat a)))"

text \<open>
  Doubles.  \<open>bits n\<close> is the length of \<open>n\<close> in binary, \<open>exponent x\<close> the integer \<open>e\<close> with
  \<open>2^e \<le> |x| < 2^(e+1)\<close>, and \<open>fl_round\<close> rounds a real value to the nearest double with 53
  significant bits, ties to the even significand, with the fixed spacing \<open>2^-1074\<close> below
  \<open>2^-1022\<close>.  Overflow to \<open>Infinity\<close> is outside the model.
\<close>

function bits :: "int \<Rightarrow> int" where
  "bits n = (if n \<le> 0 then 0 else 1 + bits (n div 2))"
  by pat_completeness auto
termination
  by (relation "measure nat") auto

declare bits.simps [simp del]

definition exponent :: "rat \<Rightarrow> int" where
  "exponent x =
     (let (p, q) = quotient_of \<bar>x\<bar>;
          d = bits p - bits q
      in if 2 powi d \<le> \<bar>x\<bar> then d else d - 1)"

definition round_half_even :: "rat \<Rightarrow> int" where
  "round_half_even r =
     (let f = \<lfloor>r\<rfloor>; d = r - of_int f
      in if d < 1 / 2 then f else if 1 / 2 < d then f + 1 else if even f then f else f + 1)"

definition fl_round :: "rat \<Rightarrow> number" where
  "fl_round x =
     (if x = 0 then 0
      else let e = max (exponent x) (- 1022); u = 2 powi (e - 52)
           in of_int (round_half_even (x / u)) * u)"

text \<open>The product of two doubles, and the double a decimal literal of a JSON text denotes.\<close>

definition fl_mul :: "number \<Rightarrow> number \<Rightarrow> number" where
  "fl_mul x y = fl_round (x * y)"

definition json_number :: "rat \<Rightarrow> number" where
  "json_number r = fl_round r"

text \<open>
  \<open>Number.prototype.toFixed\<close>, following the steps of the language standard.  From
  \<open>10^21\<close> on the standard switches to the exponent notation of \<open>Number::toString\<close>, which
  is taken as the parameter \<open>big\<close>.
\<close>

definition toFixed :: "(rat \<Rightarrow> string) \<Rightarrow> number \<Rightarrow> nat \<Rightarrow> string" where
  "toFixed big x0 f =
     (let s = (if x0 < 0 then ''-'' else []);
          x = (if x0 < 0 then - x0 else x0);
          m = (if 10 ^ 21 \<le> x then big x
               else let n = nat \<lfloor>x * 10 ^ f + 1 / 2\<rfloor>;
                        m = digits n
                    in if f = 0 then m
                       else let m' = (if length m \<le> f
                                      then replicate (f + 1 - length m) (CHR ''0'') @ m else m);
                                k = length m'
                            in take (k - f) m' @ ''.'' @ drop (k - f) m')
      in s @ m)"

section \<open>downloadChat\<close>

text \<open>
  \<open>toUpperCase\<close> on the ASCII range, where the roles the component writes lie: the
  letters \<open>a\<close> to \<open>z\<close> are mapped, every other character is kept.
\<close>

definition upper_char :: "char \<Rightarrow> char" where
  "upper_char c =
     (case map_of (zip ''abcdefghijklmnopqrstuvwxyz'' ''ABCDEFGHIJKLMNOPQRSTUVWXYZ'') c of
        None \<Rightarrow> c | Some u \<Rightarrow> u)"

definition toUpperCase :: "string \<Rightarrow> string" where
  "toUpperCase s = map upper_char s"

definition repeat :: "string \<Rightarrow> nat \<Rightarrow> string" where
  "repeat s n = concat (replicate n s)"

text \<open>A value inside a template literal: \<open>undefined\<close> prints as the word.\<close>

definition template :: "string option \<Rightarrow> string" where
  "template v = (case v of None \<Rightarrow> ''undefined'' | Some s \<Rightarrow> s)"

definition header :: "string \<Rightarrow> string \<Rightarrow> string" where
  "header localeNow lang =
     ''OnboardIQ - Chat Session Export\<newline>'' @
     ''Downloaded: '' @ localeNow @ ''\<newline>'' @
     ''Language: '' @ lang @ ''\<newline>'' @
     repeat ''='' 70 @ ''\<newline>\<newline>''"

text \<open>The body of the inner \<open>forEach\<close> (lines 105 to 108), \<open>acc\<close> being \<open>content\<close>.\<close>

definition forEach_cite :: "(rat \<Rightarrow> string) \<Rightarrow> string \<Rightarrow> citation \<Rightarrow> string" where
  "forEach_cite big acc cite =
     (let acc1 = acc @ ''  - '' @ file_name cite @ '' - Page '' @ show_int big (page_number cite) @
                 ''\<newline>''
      in acc1 @ ''    Relevance: '' @ toFixed big (fl_mul (relevance_score cite) 100) 1 @
         ''%\<newline>'')"

text \<open>The body of the outer \<open>forEach\<close> (lines 100 to 116).\<close>

definition forEach_msg :: "(rat \<Rightarrow> string) \<Rightarrow> string \<Rightarrow> message \<Rightarrow> string" where
  "forEach_msg big acc msg =
     (let acc1 = acc @ toUpperCase (role msg) @ '':\<newline>'' @ template (content msg) @
                 ''\<newline>'';
          acc2 = (case citations msg of
                    None \<Rightarrow> acc1
                  | Some cs \<Rightarrow>
                      if 0 < length cs
                      then foldl (forEach_cite big) (acc1 @ ''\<newline>Sources Referenced:\<newline>'') cs
                      else acc1);
          acc3 = (case confidence msg of
                    None \<Rightarrow> acc2
                  | Some k \<Rightarrow>
                      if k \<noteq> 0
                      then acc2 @ ''\<newline>Confidence Score: '' @ toFixed big (fl_mul k 100) 0 @
                           ''%\<newline>''
                      else acc2)
      in acc3 @ ''\<newline>'' @ repeat ''-'' 70 @ ''\<newline>\<newline>'')"

definition footer :: "message list \<Rightarrow> string" where
  "footer msgs =
     ''\<newline>Session Statistics:\<newline>'' @
     ''Total Messages: '' @ digits (length msgs) @ ''\<newline>'' @
     ''Questions Asked: '' @ digits (length (filter (\<lambda>m. role m = ''user'') msgs)) @
     ''\<newline>'' @
     ''Answers Provided: '' @ digits (length (filter (\<lambda>m. role m = ''assistant'') msgs)) @
     ''\<newline>''"

text \<open>Lines 94 to 121: the text of the export, for a transcript that is not empty.\<close>

definition render :: "(rat \<Rightarrow> string) \<Rightarrow> string \<Rightarrow> message list \<Rightarrow> string \<Rightarrow> string" where
  "render big localeNow msgs lang =
     foldl (forEach_msg big) (header localeNow lang) msgs @ footer msgs"

text \<open>
  \<open>downloadChat\<close>: the text it hands to the browser, if any, and the state after.
  \<open>millis\<close> is \<open>Date.now()\<close>.
\<close>

definition downloadChat ::
  "(rat \<Rightarrow> string) \<Rightarrow> string \<Rightarrow> nat \<Rightarrow> chat_state \<Rightarrow> chat_state \<Rightarrow> string option \<times> chat_state" where
  "downloadChat big localeNow millis snap st =
     (if length (messages snap) = 0
      then (None, st\<lparr>effects := effects st @ [Alert ''No chat to download yet'']\<rparr>)
      else let text = render big localeNow (messages snap) (language snap)
           in (Some text,
               st\<lparr>effects := effects st @
                  [Download (''onboardiq-chat-'' @ digits millis @ ''.txt'') text,
                   Alert ''Chat session downloaded successfully!'']\<rparr>))"

text \<open>
  The layout of the export as the specification words it: one block per message, made of
  the label, the sources, the confidence line and the rule.
\<close>

definition cite_lines :: "(rat \<Rightarrow> string) \<Rightarrow> citation \<Rightarrow> string" where
  "cite_lines big cite =
     ''  - '' @ file_name cite @ '' - Page '' @ show_int big (page_number cite) @ ''\<newline>'' @
     ''    Relevance: '' @ toFixed big (fl_mul (relevance_score cite) 100) 1 @ ''%\<newline>''"

definition sources_block :: "(rat \<Rightarrow> string) \<Rightarrow> message \<Rightarrow> string" where
  "sources_block big msg =
     (case citations msg of
        None \<Rightarrow> []
      | Some cs \<Rightarrow>
          if cs = [] then []
          else ''\<newline>Sources Referenced:\<newline>'' @ concat (map (cite_lines big) cs))"

definition confidence_line :: "(rat \<Rightarrow> string) \<Rightarrow> message \<Rightarrow> string" where
  "confidence_line big msg =
     (case confidence msg of
        None \<Rightarrow> []
      | Some k \<Rightarrow>
          if k = 0 then []
          else ''\<newline>Confidence Score: '' @ toFixed big (fl_mul k 100) 0 @ ''%\<newline>'')"

definition message_block :: "(rat \<Rightarrow> string) \<Rightarrow> message \<Rightarrow> string" where
  "message_block big msg =
     toUpperCase (role msg) @ '':\<newline>'' @ template (content msg) @ ''\<newline>'' @
     sources_block big msg @ confidence_line big msg @
     ''\<newline>'' @ repeat ''-'' 70 @ ''\<newline>\<newline>''"

section \<open>Sample sessions\<close>

definition asked :: message where
  "asked = userMessage ''What is the dress code?'' ''2024-05-01T09:00:00.000Z''"

definition answered :: message where
  "answered =
     \<lparr>role = ''assistant'', content = Some ''Business casual.'',
      timestamp = ''2024-05-01T09:00:02.000Z'',
      citations = Some [\<lparr>source_id = Some ''1'', file_name = ''policy.pdf'', page_number = 2,
                         relevance_score = json_number (3 / 4)\<rparr>],
      confidence = Some (json_number (1 / 2)), isError = False\<rparr>"

definition session :: chat_state where
  "session = initial_state\<lparr>messages := [asked, answered], language := ''Spanish''\<rparr>"

text \<open>The state in which a question asked in \<open>session\<close> awaits its answer.\<close>

definition pending :: chat_state where
  "pending = snd (handleSend_begin True session (Some ''Hola'') ''2024-05-01T09:01:00.000Z'' session)"

definition followup :: message where
  "followup = userMessage ''And on Fridays?'' ''2024-05-01T09:02:00.000Z''"

definition answered_again :: message where
  "answered_again =
     \<lparr>role = ''assistant'', content = Some ''Jeans are fine.'',
      timestamp = ''2024-05-01T09:02:03.000Z'',
      citations = None, confidence = None, isError = False\<rparr>"

definition long_session :: chat_state where
  "long_session = initial_state\<lparr>messages := [asked, answered, followup, answered_again]\<rparr>"

text \<open>Two calls, the first answered, the second failing.\<close>

definition two_calls :: "ask_call list" where
  "two_calls =
     [\<lparr>ask_text = ''How many leave days?'', ask_language = ''English'', ask_now = ''t1'',
       ask_result = Resolved (Data (Some ''Twenty.'') None None), ask_now' = ''t2''\<rparr>,
      \<lparr>ask_text = ''Thanks'', ask_language = ''Hindi'', ask_now = ''t3'',
       ask_result = Rejected NetworkError, ask_now' = ''t4''\<rparr>]"

text \<open>
  In the examples no number reaches \<open>10^21\<close>, and this stands for the exponent notation.
\<close>

definition no_exponent_form :: "rat \<Rightarrow> string" where
  "no_exponent_form x = []"

text \<open>An answer that comes with a confidence of zero and an empty list of citations.\<close>

definition unsure :: message where
  "unsure =
     \<lparr>role = ''assistant'', content = Some ''I do not know.'',
      timestamp = ''2024-05-01T09:00:02.000Z'',
      citations = Some [], confidence = Some 0, isError = False\<rparr>"

definition unsure_session :: chat_state where
  "unsure_session = initial_state\<lparr>messages := [asked, unsure]\<rparr>"

text \<open>
  The transcript of the round-trip example of the specification.  What it leaves open
  (the timestamps, the text of the answer, the citation's \<open>source_id\<close>) is a parameter;
  \<open>0.87\<close> and \<open>0.91\<close> are the doubles that the JSON text of the response denotes.
\<close>

definition leave_answer :: "string option \<Rightarrow> string \<Rightarrow> string option \<Rightarrow> message" where
  "leave_answer a t sid =
     \<lparr>role = ''assistant'', content = a, timestamp = t,
      citations = Some [\<lparr>source_id = sid, file_name = ''hr.pdf'', page_number = 4,
                         relevance_score = json_number (91 / 100)\<rparr>],
      confidence = Some (json_number (87 / 100)), isError = False\<rparr>"

definition leave_transcript ::
  "string \<Rightarrow> string option \<Rightarrow> string \<Rightarrow> string option \<Rightarrow> string \<Rightarrow> message list" where
  "leave_transcript t1 a t2 sid t3 =
     [userMessage ''How many leave days?'' t1, leave_answer a t2 sid, userMessage ''Thanks'' t3]"

section \<open>The synchronous part and the continuation of a call\<close>

lemmas handleSend_defs =
  handleSend_begin_def handleSend_guard_def handleSend_text_def handleSend_post_def
  handleSend_echo_def

lemma handleSend_begin_rejected:
  assumes "trim (handleSend_text snap textArg) = [] \<or> loading snap \<or> \<not> isOnline"
  shows "fst (handleSend_begin isOnline snap textArg now st) = None"
    and "messages (snd (handleSend_begin isOnline snap textArg now st)) = messages st"
    and "requests (snd (handleSend_begin isOnline snap textArg now st)) = requests st"
    and "loading (snd (handleSend_begin isOnline snap textArg now st)) = loading st"
    and "input (snd (handleSend_begin isOnline snap textArg now st)) = input st"
  using assms
  by (auto simp: handleSend_begin_def handleSend_guard_def requests_def List.map_filter_def Let_def)

lemma handleSend_begin_passed:
  assumes "trim (handleSend_text snap textArg) \<noteq> []" "\<not> loading snap" "isOnline"
  shows "handleSend_begin isOnline snap textArg now st =
     (Some (sendQuery (languagePrompt (language snap) @ handleSend_text snap textArg) (messages snap)),
      (handleSend_echo (handleSend_text snap textArg) now st)
        \<lparr>effects := effects st @
           [Request (PostChatQuery
              (sendQuery (languagePrompt (language snap) @ handleSend_text snap textArg)
                 (messages snap)))]\<rparr>)"
  using assms
  by (simp add: handleSend_begin_def handleSend_guard_def handleSend_post_def
      handleSend_echo_def Let_def)

lemma handleSend_begin_Some:
  assumes "handleSend_begin isOnline snap textArg now st = (Some body, st')"
  shows "trim (handleSend_text snap textArg) \<noteq> [] \<and> \<not> loading snap \<and> isOnline"
  using assms
  by (auto simp: handleSend_begin_def handleSend_guard_def Let_def split: if_splits prod.splits)

lemma handleSend_resume_total:
  "\<exists>st'. handleSend_resume res now st = Inr st'"
  by (simp add: handleSend_resume_def split: sum.splits)

lemma handleSend_resume_failure:
  assumes "res = Rejected e \<or> res = Resolved Nullish"
  shows "\<exists>e'. handleSend_resume res now st =
     Inr (st\<lparr>effects := effects st @ [ConsoleError e'],
             messages := messages st @ [errorMessage now], loading := False\<rparr>)"
  using assms
  by (auto simp: handleSend_resume_def handleSend_try_def await_post_def assistantMessage_def
      handleSend_catch_def handleSend_finally_def)

lemma handleSend_resume_data:
  "handleSend_resume (Resolved (Data a c k)) now st =
     Inr (st\<lparr>messages := messages st @
            [\<lparr>role = ''assistant'', content = a, timestamp = now, citations = c,
              confidence = k, isError = False\<rparr>], loading := False\<rparr>)"
  by (simp add: handleSend_resume_def handleSend_try_def await_post_def assistantMessage_def
      handleSend_finally_def)

lemma handleSend_resume_appends:
  "\<exists>m e. handleSend_resume res now st =
      Inr (st\<lparr>effects := e, messages := messages st @ [m], loading := False\<rparr>)
    \<and> role m = ''assistant''"
proof (cases res)
  case (Rejected x)
  then show ?thesis
    using handleSend_resume_failure[of res x now st] by (auto simp: errorMessage_def)
next
  case (Resolved d)
  show ?thesis
  proof (cases d)
    case Nullish
    then show ?thesis
      using Resolved handleSend_resume_failure[of res undefined now st] by (auto simp: errorMessage_def)
  next
    case (Data a c k)
    have "st\<lparr>messages := messages st @ [m], loading := False\<rparr>
        = st\<lparr>effects := effects st, messages := messages st @ [m], loading := False\<rparr>" for m
      by simp
    then show ?thesis
      using Resolved Data handleSend_resume_data[of a c k now st]
      by (metis message.select_convs(1))
  qed
qed


lemma requests_append_other [simp]:
  "requests (st\<lparr>effects := effects st @ [Alert a]\<rparr>) = requests st"
  "requests (st\<lparr>effects := effects st @ [ConsoleError e]\<rparr>) = requests st"
  "requests (st\<lparr>effects := effects st @ [Request r]\<rparr>) = requests st @ [r]"
  by (simp_all add: requests_def List.map_filter_def)

lemma requests_update [simp]:
  "requests (st\<lparr>messages := ms\<rparr>) = requests st"
  "requests (st\<lparr>loading := b\<rparr>) = requests st"
  "requests (st\<lparr>input := i\<rparr>) = requests st"
  "requests (st\<lparr>language := l\<rparr>) = requests st"
  by (simp_all add: requests_def)

text \<open>
  C5.  Whenever a call gets as far as posting, the query text it posts is the raw question,
  unchanged when the selected language is \<open>English\<close>, and otherwise preceded by the
  instruction \<open>Please answer in L. \<close> naming the selected language \<open>L\<close>.
\<close>

theorem outbound_query_text:
  assumes "handleSend_begin isOnline snap textArg now st = (Some body, st')"
  shows "query body =
           (if language snap = ''English'' then handleSend_text snap textArg
            else ''Please answer in '' @ language snap @ ''. '' @ handleSend_text snap textArg)"
proof -
  from assms have "trim (handleSend_text snap textArg) \<noteq> [] \<and> \<not> loading snap \<and> isOnline"
    by (rule handleSend_begin_Some)
  then have "body = sendQuery (languagePrompt (language snap) @ handleSend_text snap textArg)
      (messages snap)"
    using assms handleSend_begin_passed[of snap textArg isOnline now st] by simp
  then show ?thesis
    by (simp add: sendQuery_def languagePrompt_def)
qed

theorem outbound_query_text_witness:
  "handleSend_begin True session (Some ''Hola'') ''t1'' session =
     (Some (sendQuery ''Please answer in Spanish. Hola'' [asked, answered]),
      snd (handleSend_begin True session (Some ''Hola'') ''t1'' session))
   \<and> query (sendQuery ''Please answer in Spanish. Hola'' [asked, answered]) =
       ''Please answer in Spanish. Hola''"
proof -
  have h: "handleSend_begin True session (Some ''Hola'') ''t1'' session =
     (Some (sendQuery ''Please answer in Spanish. Hola'' [asked, answered]),
      snd (handleSend_begin True session (Some ''Hola'') ''t1'' session))"
    by (simp add: handleSend_defs session_def initial_state_def trim_def is_space_def
        languagePrompt_def Let_def)
  show ?thesis
    using h outbound_query_text[OF h]
    by (simp add: session_def initial_state_def handleSend_text_def)
qed

lemma handleSend_rejected:
  assumes "trim (handleSend_text snap textArg) = [] \<or> loading snap \<or> \<not> isOnline"
  shows "\<exists>st'. handleSend isOnline snap textArg now res now' st = Inr st'
     \<and> st' = snd (handleSend_begin isOnline snap textArg now st)"
  using handleSend_begin_rejected(1)[OF assms, of now st]
  by (cases "handleSend_begin isOnline snap textArg now st") (simp add: handleSend_def)

lemma handleSend_passed:
  assumes "trim (handleSend_text snap textArg) \<noteq> []" "\<not> loading snap" "isOnline"
  shows "handleSend isOnline snap textArg now res now' st =
     handleSend_resume res now' (snd (handleSend_begin isOnline snap textArg now st))"
  using handleSend_begin_passed[OF assms, of now st] by (simp add: handleSend_def)

lemma reply_assistant: "role (reply res now) = ''assistant''"
  by (simp add: reply_def errorMessage_def split: post_result.splits response_data.splits)

lemma handleSend_resume_reply:
  "\<exists>st'. handleSend_resume res now st = Inr st'
     \<and> messages st' = messages st @ [reply res now] \<and> \<not> loading st'
     \<and> input st' = input st \<and> language st' = language st \<and> requests st' = requests st"
proof (cases "res = Resolved Nullish \<or> (\<exists>e. res = Rejected e)")
  case True
  then obtain e where "res = Rejected e \<or> res = Resolved Nullish" by auto
  from handleSend_resume_failure[OF this, of now st] True show ?thesis
    by (auto simp: reply_def)
next
  case False
  then obtain a c k where "res = Resolved (Data a c k)"
    by (cases res; simp) (metis response_data.exhaust)
  then show ?thesis
    by (simp add: handleSend_resume_data reply_def)
qed

section \<open>Rejected calls\<close>

lemma dropWhile_all: "(\<forall>x \<in> set (dropWhile P xs). P x) \<longleftrightarrow> (\<forall>x \<in> set xs. P x)"
  by (induction xs) auto

lemma trim_blank: "trim s = [] \<longleftrightarrow> (\<forall>c \<in> set s. is_space c)"
  by (simp add: trim_def dropWhile_eq_Nil_conv dropWhile_all)

text \<open>
  C6.  A call whose text is empty once trimmed (by \<open>trim_blank\<close>: every character of it
  is white space, the no-break space included), or made while the backend is flagged
  offline, returns at the guard: the transcript is what it was, no request has been
  issued, and the lock is as it was.
\<close>

theorem rejected_call_leaves_transcript:
  assumes "trim (handleSend_text snap textArg) = [] \<or> \<not> isOnline"
  shows "\<exists>st'. handleSend isOnline snap textArg now res now' st = Inr st'
     \<and> fst (handleSend_begin isOnline snap textArg now st) = None
     \<and> messages st' = messages st \<and> requests st' = requests st \<and> loading st' = loading st"
proof -
  from assms have r: "trim (handleSend_text snap textArg) = [] \<or> loading snap \<or> \<not> isOnline"
    by blast
  from handleSend_rejected[OF r, of now res now' st]
  show ?thesis
    using handleSend_begin_rejected[OF r, of now st] by auto
qed

theorem rejected_call_leaves_transcript_witness:
  "trim (handleSend_text session (Some [CHR 0xA0, CHR 0x20, CHR 0x09])) = []
   \<and> handleSend True session (Some [CHR 0xA0, CHR 0x20, CHR 0x09]) ''t1'' (Rejected NetworkError) ''t2'' session = Inr session
   \<and> handleSend False session (Some ''Hola'') ''t1'' (Rejected NetworkError) ''t2'' session
       = Inr (session\<lparr>effects := [Alert offline_notice]\<rparr>)"
proof -
  have h: "trim (handleSend_text session (Some [CHR 0xA0, CHR 0x20, CHR 0x09])) = [] \<or> \<not> True"
    by (simp add: handleSend_text_def trim_def is_space_def)
  have "handleSend True session (Some [CHR 0xA0, CHR 0x20, CHR 0x09]) ''t1'' (Rejected NetworkError) ''t2'' session = Inr session"
    using rejected_call_leaves_transcript[OF h, of "''t1''" "Rejected NetworkError" "''t2''" session]
    by (simp add: handleSend_def handleSend_begin_def handleSend_guard_def handleSend_text_def
        trim_def is_space_def)
  moreover have "handleSend False session (Some ''Hola'') ''t1'' (Rejected NetworkError) ''t2'' session
       = Inr (session\<lparr>effects := [Alert offline_notice]\<rparr>)"
    by (simp add: handleSend_def handleSend_begin_def handleSend_guard_def handleSend_text_def
        trim_def is_space_def session_def initial_state_def)
  ultimately show ?thesis
    by (simp add: handleSend_text_def trim_def is_space_def)
qed

section \<open>The history sent with a question\<close>

text \<open>
  C10.  A handler is created by the render that shows the current state, so its \<open>messages\<close>
  are those of the state it is called in.  The history it posts is then the transcript
  before the call, and the transcript after the synchronous part is that history followed
  by the new user message: the question being asked is not part of what is sent.
\<close>

theorem history_excludes_current_question:
  assumes "handleSend_begin isOnline snap textArg now st = (Some body, st')"
    and "messages snap = messages st"
  shows "conversation_history body = messages st
     \<and> messages st' = conversation_history body @ [userMessage (handleSend_text snap textArg) now]
     \<and> length (conversation_history body) < length (messages st')"
proof -
  from assms(1) have p: "trim (handleSend_text snap textArg) \<noteq> []" "\<not> loading snap" "isOnline"
    using handleSend_begin_Some by blast+
  from handleSend_begin_passed[OF p, of now st] assms show ?thesis
    by (auto simp: sendQuery_def handleSend_echo_def)
qed

theorem history_excludes_current_question_witness:
  "handleSend_begin True session (Some ''Hola'') ''t1'' session =
     (Some (sendQuery ''Please answer in Spanish. Hola'' [asked, answered]),
      snd (handleSend_begin True session (Some ''Hola'') ''t1'' session))
   \<and> messages session = messages session
   \<and> conversation_history (sendQuery ''Please answer in Spanish. Hola'' [asked, answered]) =
       [asked, answered]
   \<and> messages (snd (handleSend_begin True session (Some ''Hola'') ''t1'' session)) =
       [asked, answered, userMessage ''Hola'' ''t1'']"
proof -
  have h: "handleSend_begin True session (Some ''Hola'') ''t1'' session =
     (Some (sendQuery ''Please answer in Spanish. Hola'' [asked, answered]),
      snd (handleSend_begin True session (Some ''Hola'') ''t1'' session))"
    by (simp add: handleSend_defs session_def initial_state_def trim_def is_space_def
        languagePrompt_def Let_def)
  show ?thesis
    using h history_excludes_current_question[OF h refl]
    by (simp add: session_def initial_state_def handleSend_text_def sendQuery_def)
qed

section \<open>The request body\<close>

text \<open>
  C4, as stated, fails: the history entries are not reduced to \<open>role\<close> and \<open>content\<close>.
  In the sample session the first entry of the posted history still carries its
  \<open>timestamp\<close>, and the second its \<open>citations\<close> and \<open>confidence\<close> as well.
\<close>

theorem history_entries_counterexample:
  "handleSend_begin True session (Some ''Hola'') ''t1'' session =
     (Some (sendQuery ''Please answer in Spanish. Hola'' [asked, answered]),
      snd (handleSend_begin True session (Some ''Hola'') ''t1'' session))
   \<and> map json_keys (conversation_history (sendQuery ''Please answer in Spanish. Hola'' [asked, answered]))
       = [[''role'', ''content'', ''timestamp''],
          [''role'', ''content'', ''citations'', ''confidence'', ''timestamp'']]
   \<and> ''timestamp'' \<in> set (json_keys (hd (conversation_history
          (sendQuery ''Please answer in Spanish. Hola'' [asked, answered]))))"
  by (simp add: handleSend_defs session_def initial_state_def trim_def is_space_def
      languagePrompt_def Let_def sendQuery_def json_keys_def asked_def answered_def
      userMessage_def)

text \<open>
  C4, amended.  Whenever a call gets as far as posting, the request is the last thing the
  component has done, and its body carries the augmented query text, the transcript of the
  handler's render as it is (each message whole: \<open>role\<close> and \<open>timestamp\<close> always, and
  \<open>content\<close>, \<open>citations\<close>, \<open>confidence\<close>, \<open>isError\<close> where the message has them), and
  \<open>top_k = 5\<close>.
\<close>

theorem request_body:
  assumes "handleSend_begin isOnline snap textArg now st = (Some body, st')"
  shows "effects st' = effects st @ [Request (PostChatQuery body)]
     \<and> query body = languagePrompt (language snap) @ handleSend_text snap textArg
     \<and> conversation_history body = messages snap
     \<and> top_k body = 5
     \<and> (\<forall>m \<in> set (conversation_history body).
           set (json_keys m) =
             {''role'', ''timestamp''} \<union> (if content m = None then {} else {''content''})
               \<union> (if citations m = None then {} else {''citations''})
               \<union> (if confidence m = None then {} else {''confidence''})
               \<union> (if isError m then {''isError''} else {}))"
proof -
  from assms have p: "trim (handleSend_text snap textArg) \<noteq> []" "\<not> loading snap" "isOnline"
    using handleSend_begin_Some by blast+
  have k: "set (json_keys m) =
             {''role'', ''timestamp''} \<union> (if content m = None then {} else {''content''})
               \<union> (if citations m = None then {} else {''citations''})
               \<union> (if confidence m = None then {} else {''confidence''})
               \<union> (if isError m then {''isError''} else {})" for m
    unfolding json_keys_def
    by (cases "content m"; cases "citations m"; cases "confidence m"; cases "isError m") auto
  from handleSend_begin_passed[OF p, of now st] assms
  have "body = sendQuery (languagePrompt (language snap) @ handleSend_text snap textArg) (messages snap)"
    and "effects st' = effects st @ [Request (PostChatQuery body)]"
    by (auto simp: handleSend_echo_def)
  then show ?thesis
    using k by (simp add: sendQuery_def)
qed

theorem request_body_witness:
  "handleSend_begin True session (Some ''Hola'') ''t1'' session =
     (Some (sendQuery ''Please answer in Spanish. Hola'' [asked, answered]),
      snd (handleSend_begin True session (Some ''Hola'') ''t1'' session))
   \<and> effects (snd (handleSend_begin True session (Some ''Hola'') ''t1'' session)) =
       [Request (PostChatQuery
          \<lparr>query = ''Please answer in Spanish. Hola'', conversation_history = [asked, answered],
           top_k = 5\<rparr>)]"
proof -
  have h: "handleSend_begin True session (Some ''Hola'') ''t1'' session =
     (Some (sendQuery ''Please answer in Spanish. Hola'' [asked, answered]),
      snd (handleSend_begin True session (Some ''Hola'') ''t1'' session))"
    by (simp add: handleSend_defs session_def initial_state_def trim_def is_space_def
        languagePrompt_def Let_def)
  show ?thesis
    using h request_body[OF h]
    by (simp add: session_def initial_state_def sendQuery_def)
qed

section \<open>Failures of the backend call\<close>

lemma pending_eq:
  "pending =
     \<lparr>messages = [asked, answered, userMessage ''Hola'' ''2024-05-01T09:01:00.000Z''],
      input = [], loading = True, language = ''Spanish'',
      effects = [Request (PostChatQuery
         (sendQuery ''Please answer in Spanish. Hola'' [asked, answered]))]\<rparr>"
  by (simp add: pending_def handleSend_defs session_def initial_state_def trim_def is_space_def
      languagePrompt_def Let_def)

text \<open>
  C3, as stated, fails for a malformed payload.  A response that resolves with a body
  lacking \<open>answer\<close>, \<open>citations\<close> and \<open>confidence\<close> (the body \<open>{}\<close>, or a text that is not
  JSON) throws nothing: the message appended is built from the missing properties, and it
  is neither the apology nor flagged as an error.
\<close>

theorem malformed_payload_counterexample:
  "handleSend_resume (Resolved (Data None None None)) ''2024-05-01T09:01:02.000Z'' pending =
     Inr (pending\<lparr>messages := messages pending @
            [\<lparr>role = ''assistant'', content = None, timestamp = ''2024-05-01T09:01:02.000Z'',
              citations = None, confidence = None, isError = False\<rparr>],
          loading := False\<rparr>)
   \<and> \<not> isError (last (messages (pending\<lparr>messages := messages pending @
            [\<lparr>role = ''assistant'', content = None, timestamp = ''2024-05-01T09:01:02.000Z'',
              citations = None, confidence = None, isError = False\<rparr>],
          loading := False\<rparr>)))
   \<and> content (last (messages (pending\<lparr>messages := messages pending @
            [\<lparr>role = ''assistant'', content = None, timestamp = ''2024-05-01T09:01:02.000Z'',
              citations = None, confidence = None, isError = False\<rparr>],
          loading := False\<rparr>))) \<noteq> Some apology"
  by (simp add: handleSend_resume_data)

text \<open>
  C3, amended.  For every call that gets as far as posting and whose request is rejected
  (no connection, or a status outside 2xx) or resolves with a \<open>null\<close> or \<open>undefined\<close> body,
  the transcript ends with the user message followed by an assistant message whose content
  is the fixed apology, whose \<open>isError\<close> is true and which carries neither citations nor
  confidence.  Whatever the backend did, the call returns normally: no failure reaches
  the caller.
\<close>

theorem failed_call_apologises:
  assumes "trim (handleSend_text snap textArg) \<noteq> []" and "\<not> loading snap" and "isOnline"
    and "res = Rejected e \<or> res = Resolved Nullish"
  shows "(\<exists>st'. handleSend isOnline snap textArg now res now' st = Inr st'
            \<and> messages st' =
                messages st @ [userMessage (handleSend_text snap textArg) now, errorMessage now']
            \<and> last (messages st') =
                \<lparr>role = ''assistant'', content = Some apology, timestamp = now',
                 citations = None, confidence = None, isError = True\<rparr>
            \<and> \<not> loading st')
     \<and> (\<forall>res'. \<exists>st'. handleSend isOnline snap textArg now res' now' st = Inr st')"
proof -
  let ?st1 = "snd (handleSend_begin isOnline snap textArg now st)"
  have m1: "messages ?st1 = messages st @ [userMessage (handleSend_text snap textArg) now]"
    using handleSend_begin_passed[OF assms(1-3), of now st] by (simp add: handleSend_echo_def)
  have run: "handleSend isOnline snap textArg now r now' st = handleSend_resume r now' ?st1" for r
    using handleSend_passed[OF assms(1-3)] .
  from handleSend_resume_failure[OF assms(4), of now' ?st1]
  obtain e' where "handleSend_resume res now' ?st1 =
     Inr (?st1\<lparr>effects := effects ?st1 @ [ConsoleError e'],
             messages := messages ?st1 @ [errorMessage now'], loading := False\<rparr>)"
    by blast
  then have "\<exists>st'. handleSend isOnline snap textArg now res now' st = Inr st'
            \<and> messages st' =
                messages st @ [userMessage (handleSend_text snap textArg) now, errorMessage now']
            \<and> last (messages st') =
                \<lparr>role = ''assistant'', content = Some apology, timestamp = now',
                 citations = None, confidence = None, isError = True\<rparr>
            \<and> \<not> loading st'"
    using run m1 by (simp add: errorMessage_def)
  moreover have "\<forall>res'. \<exists>st'. handleSend isOnline snap textArg now res' now' st = Inr st'"
    using run handleSend_resume_total by simp
  ultimately show ?thesis by blast
qed

theorem failed_call_apologises_witness:
  "trim (handleSend_text session (Some ''test'')) \<noteq> [] \<and> \<not> loading session
   \<and> (Rejected (HttpError 500) = Rejected (HttpError 500)
        \<or> Rejected (HttpError 500) = Resolved Nullish)
   \<and> (\<exists>st'. handleSend True session (Some ''test'') ''t1'' (Rejected (HttpError 500)) ''t2'' session
          = Inr st'
        \<and> messages st' = [asked, answered, userMessage ''test'' ''t1'', errorMessage ''t2'']
        \<and> isError (last (messages st')) \<and> citations (last (messages st')) = None)"
proof -
  have h1: "trim (handleSend_text session (Some ''test'')) \<noteq> []"
    by (simp add: handleSend_text_def trim_def is_space_def)
  have h2: "\<not> loading session"
    by (simp add: session_def initial_state_def)
  have h4: "Rejected (HttpError 500) = Rejected (HttpError 500)
        \<or> Rejected (HttpError 500) = Resolved Nullish"
    by simp
  from failed_call_apologises[OF h1 h2 TrueI h4, of "''t1''" "''t2''" session]
  obtain st' where
    "handleSend True session (Some ''test'') ''t1'' (Rejected (HttpError 500)) ''t2'' session = Inr st'"
    "messages st' = messages session @ [userMessage (handleSend_text session (Some ''test'')) ''t1'',
        errorMessage ''t2'']"
    "last (messages st') =
       \<lparr>role = ''assistant'', content = Some apology, timestamp = ''t2'',
        citations = None, confidence = None, isError = True\<rparr>"
    by blast
  then show ?thesis
    using h1 h2 by (auto simp: session_def initial_state_def handleSend_text_def)
qed

section \<open>The in-flight lock\<close>

text \<open>
  C2.  The lock is \<open>loading\<close>.  A handler made by a render that shows \<open>loading\<close> (that is,
  while a call is awaiting the backend) returns at the guard and leaves the state exactly
  as it is, so the continuation of the awaiting call runs as if the second call had not
  been made.  A call that returns at the guard, for whatever reason, never took the lock
  and leaves it as it found it.  A call that got past the guard ends, on every outcome of
  the backend call, with the lock released and without raising, after which the handler
  of the next render accepts a question again.
\<close>

theorem in_flight_lock:
  assumes "loading snap"
  shows "handleSend_begin isOnline snap textArg now st = (None, st)
     \<and> handleSend isOnline snap textArg now res now' st = Inr st
     \<and> handleSend_resume res1 now1 (snd (handleSend_begin isOnline snap textArg now st))
         = handleSend_resume res1 now1 st
     \<and> (\<forall>isOnline2 snap2 textArg2 st2.
           fst (handleSend_begin isOnline2 snap2 textArg2 now st2) = None \<longrightarrow>
           loading (snd (handleSend_begin isOnline2 snap2 textArg2 now st2)) = loading st2
           \<and> messages (snd (handleSend_begin isOnline2 snap2 textArg2 now st2)) = messages st2)
     \<and> (\<forall>r. \<exists>st'. handleSend_resume r now1 st = Inr st' \<and> \<not> loading st'
           \<and> (\<forall>text. trim text \<noteq> [] \<longrightarrow>
                 fst (handleSend_begin True st' (Some text) now st') \<noteq> None))"
proof -
  have a: "handleSend_begin isOnline snap textArg now st = (None, st)"
    using assms by (simp add: handleSend_begin_def handleSend_guard_def)
  have b: "handleSend isOnline snap textArg now res now' st = Inr st"
    using a by (simp add: handleSend_def)
  have c: "fst (handleSend_begin isOnline2 snap2 textArg2 now st2) = None \<longrightarrow>
           loading (snd (handleSend_begin isOnline2 snap2 textArg2 now st2)) = loading st2
           \<and> messages (snd (handleSend_begin isOnline2 snap2 textArg2 now st2)) = messages st2"
    for isOnline2 snap2 textArg2 st2
    by (auto simp: handleSend_begin_def handleSend_guard_def handleSend_post_def Let_def
        split: if_splits)
  have d: "\<exists>st'. handleSend_resume r now1 st = Inr st' \<and> \<not> loading st'
           \<and> (\<forall>text. trim text \<noteq> [] \<longrightarrow>
                 fst (handleSend_begin True st' (Some text) now st') \<noteq> None)" for r
  proof -
    from handleSend_resume_reply[of r now1 st]
    obtain st' where s: "handleSend_resume r now1 st = Inr st'" "\<not> loading st'" by blast
    have "fst (handleSend_begin True st' (Some q) now st') \<noteq> None" if "trim q \<noteq> []" for q
      using handleSend_begin_passed[of st' "Some q" True now st'] that s(2)
      by (simp add: handleSend_text_def)
    with s show ?thesis by blast
  qed
  from a b c d show ?thesis by simp
qed

theorem in_flight_lock_witness:
  "loading pending
   \<and> handleSend_begin True pending (Some ''Otra'') ''t3'' pending = (None, pending)
   \<and> handleSend True pending (Some ''Otra'') ''t3'' (Rejected NetworkError) ''t4'' pending
        = Inr pending
   \<and> handleSend_resume (Rejected NetworkError) ''t2'' pending =
        Inr (pending\<lparr>effects := effects pending @ [ConsoleError NetworkError],
               messages := messages pending @ [errorMessage ''t2''], loading := False\<rparr>)"
proof -
  have h: "loading pending"
    by (simp add: pending_eq)
  have "handleSend_resume (Rejected NetworkError) ''t2'' pending =
        Inr (pending\<lparr>effects := effects pending @ [ConsoleError NetworkError],
               messages := messages pending @ [errorMessage ''t2''], loading := False\<rparr>)"
    by (simp add: handleSend_resume_def handleSend_try_def await_post_def handleSend_catch_def
        handleSend_finally_def)
  then show ?thesis
    using h in_flight_lock[OF h, of True "Some ''Otra''" "''t3''" pending]
    by simp
qed

section \<open>Calls made one at a time\<close>

lemma ask_completes:
  assumes "trim q \<noteq> []" and "\<not> loading st"
  shows "\<exists>st'. ask True q lang now res now' st = Inr st'
     \<and> messages st' = messages st @ [userMessage q now, reply res now'] \<and> \<not> loading st'"
proof -
  let ?s = "st\<lparr>language := lang\<rparr>"
  let ?s1 = "snd (handleSend_begin True ?s (Some q) now ?s)"
  have p: "trim (handleSend_text ?s (Some q)) \<noteq> []" "\<not> loading ?s" "True"
    using assms by (simp_all add: handleSend_text_def)
  have m1: "messages ?s1 = messages st @ [userMessage q now]"
    using handleSend_begin_passed[OF p, of now ?s]
    by (simp add: handleSend_echo_def handleSend_text_def)
  have "ask True q lang now res now' st = handleSend_resume res now' ?s1"
    using handleSend_passed[OF p, of now res now' ?s] by (simp add: ask_def Let_def)
  then show ?thesis
    using handleSend_resume_reply[of res now' ?s1] m1 by auto
qed

lemma ask_all_exchanges:
  assumes "\<forall>c \<in> set calls. trim (ask_text c) \<noteq> []" and "\<not> loading st"
  shows "\<exists>st'. ask_all True calls st = Inr st'
     \<and> messages st' = messages st @ concat (map exchange calls) \<and> \<not> loading st'"
  using assms
proof (induction calls arbitrary: st)
  case Nil
  then show ?case by simp
next
  case (Cons c cs)
  from Cons.prems have "trim (ask_text c) \<noteq> []" by simp
  from ask_completes[OF this Cons.prems(2),
      of "ask_language c" "ask_now c" "ask_result c" "ask_now' c"]
  obtain s1 where s1: "ask True (ask_text c) (ask_language c) (ask_now c) (ask_result c) (ask_now' c) st
      = Inr s1"
    "messages s1 = messages st @ exchange c" "\<not> loading s1"
    by (auto simp: exchange_def)
  from Cons.prems have "\<forall>c \<in> set cs. trim (ask_text c) \<noteq> []" by simp
  from Cons.IH[OF this s1(3)]
  obtain s2 where "ask_all True cs s1 = Inr s2"
    "messages s2 = messages s1 @ concat (map exchange cs)" "\<not> loading s2"
    by blast
  with s1 show ?case by simp
qed

lemma length_concat_exchange: "length (concat (map exchange calls)) = 2 * length calls"
  by (induction calls) (simp_all add: exchange_def)

text \<open>
  C1.  Take any calls made one at a time with the backend online, each with a text that is
  not empty once trimmed, starting from a state in which no call is awaiting.  Every call
  returns normally, and the transcript at the end is the transcript at the start followed,
  for each call in turn, by its user message (role \<open>user\<close>, the raw text) and then one
  assistant message: the reply built from the response, or the apology when the backend
  call failed.  So the length grows by exactly two per call, whatever the backend did.
  Within any accepted call, the user message is appended by \<open>handleSend_echo\<close>, which
  issues no request: the request is posted from the state that already holds the user
  message.
\<close>

theorem sequential_asks_append_two:
  assumes "\<forall>c \<in> set calls. trim (ask_text c) \<noteq> []" and "\<not> loading st"
  shows "(\<exists>st'. ask_all True calls st = Inr st'
            \<and> messages st' = messages st @ concat (map exchange calls)
            \<and> length (messages st') = length (messages st) + 2 * length calls
            \<and> (\<forall>c \<in> set calls. map role (exchange c) = [''user'', ''assistant''])
            \<and> \<not> loading st')
     \<and> (\<forall>s q now. trim q \<noteq> [] \<and> \<not> loading s \<longrightarrow>
           handleSend_begin True s (Some q) now s
             = (Some (fst (handleSend_post s q (handleSend_echo q now s))),
                snd (handleSend_post s q (handleSend_echo q now s)))
           \<and> messages (handleSend_echo q now s) = messages s @ [userMessage q now]
           \<and> requests (handleSend_echo q now s) = requests s)"
proof -
  from ask_all_exchanges[OF assms]
  obtain st' where s: "ask_all True calls st = Inr st'"
    "messages st' = messages st @ concat (map exchange calls)" "\<not> loading st'"
    by blast
  have r: "map role (exchange c) = [''user'', ''assistant'']" for c
    by (simp add: exchange_def userMessage_def reply_assistant)
  have e: "messages (handleSend_echo q now s) = messages s @ [userMessage q now]
      \<and> requests (handleSend_echo q now s) = requests s" for q now s
    by (simp add: handleSend_echo_def)
  have b: "handleSend_begin True s (Some q) now s
             = (Some (fst (handleSend_post s q (handleSend_echo q now s))),
                snd (handleSend_post s q (handleSend_echo q now s)))"
    if "trim q \<noteq> []" "\<not> loading s" for q now s
    using that
    by (simp add: handleSend_begin_def handleSend_guard_def handleSend_text_def Let_def
        split: prod.splits)
  have "\<exists>st'. ask_all True calls st = Inr st'
            \<and> messages st' = messages st @ concat (map exchange calls)
            \<and> length (messages st') = length (messages st) + 2 * length calls
            \<and> (\<forall>c \<in> set calls. map role (exchange c) = [''user'', ''assistant''])
            \<and> \<not> loading st'"
    using s r by (simp add: length_concat_exchange)
  then show ?thesis
    using e b by blast
qed

theorem sequential_asks_append_two_witness:
  "trim ''How many leave days?'' \<noteq> [] \<and> trim ''Thanks'' \<noteq> [] \<and> \<not> loading initial_state
   \<and> (\<exists>st'. ask_all True two_calls initial_state = Inr st'
        \<and> messages st' =
            [userMessage ''How many leave days?'' ''t1'',
             \<lparr>role = ''assistant'', content = Some ''Twenty.'', timestamp = ''t2'',
              citations = None, confidence = None, isError = False\<rparr>,
             userMessage ''Thanks'' ''t3'', errorMessage ''t4'']
        \<and> length (messages st') = 4)"
proof -
  have t: "trim ''How many leave days?'' \<noteq> []" "trim ''Thanks'' \<noteq> []"
    by (simp_all add: trim_def is_space_def)
  then have h1: "\<forall>c \<in> set two_calls. trim (ask_text c) \<noteq> []"
    by (simp add: two_calls_def)
  have h2: "\<not> loading initial_state"
    by (simp add: initial_state_def)
  from sequential_asks_append_two[OF h1 h2]
  obtain st' where "ask_all True two_calls initial_state = Inr st'"
    "messages st' = messages initial_state @ concat (map exchange two_calls)"
    by blast
  then show ?thesis
    using t h2 by (auto simp: two_calls_def exchange_def reply_def initial_state_def)
qed

section \<open>Feedback\<close>

lemma first_slice_last: "first (slice_last xs) = (case rev xs of [] \<Rightarrow> None | x # _ \<Rightarrow> Some x)"
proof (cases xs rule: rev_cases)
  case Nil
  then show ?thesis by (simp add: first_def slice_last_def)
next
  case (snoc ys y)
  then show ?thesis by (simp add: first_def slice_last_def)
qed

lemma userQuery_whole: "userQuery msgs = preceding_user_query msgs (length msgs)"
  by (simp add: userQuery_def preceding_user_query_def first_slice_last
      split: list.splits option.splits)

lemma preceding_user_query_later:
  assumes "\<forall>m \<in> set (drop i msgs). role m \<noteq> ''user''"
  shows "preceding_user_query msgs (length msgs) = preceding_user_query msgs i"
proof -
  have "filter (\<lambda>m. role m = ''user'') (drop i msgs) = []"
    using assms by (simp add: filter_empty_conv)
  then have "filter (\<lambda>m. role m = ''user'') (take i msgs @ drop i msgs)
      = filter (\<lambda>m. role m = ''user'') (take i msgs)"
    by (simp only: filter_append append_Nil2)
  then show ?thesis
    by (simp add: preceding_user_query_def)
qed

text \<open>
  C7, as stated, fails: the query is looked up in the whole transcript, not before the
  rated message.  Rating the first answer of a session in which a second question has
  been asked submits the second question.
\<close>

theorem feedback_query_counterexample:
  "messages long_session ! 1 = answered
   \<and> fb_query (fst (handleFeedback_begin long_session answered ''positive'' long_session))
       = ''And on Fridays?''
   \<and> preceding_user_query (messages long_session) 1 = ''What is the dress code?''"
  by (simp add: handleFeedback_begin_def submitFeedback_def userQuery_whole Let_def
      preceding_user_query_def long_session_def initial_state_def asked_def answered_def
      followup_def answered_again_def userMessage_def)

text \<open>
  C7, amended.  For every \<open>rate(message, rating)\<close> the payload submitted to the feedback
  endpoint is \<open>(query, message.content, rating)\<close>, where the query is the content of the
  most recent user message of the transcript, or the empty string if there is none.  That
  is the user message preceding the rated one whenever no user message comes after it.
  The content of a user message is the raw text of the question, never the text with the
  language instruction.  The transcript is left as it is.
\<close>

theorem feedback_payload:
  "fst (handleFeedback_begin snap msg rating st) =
      \<lparr>fb_query = preceding_user_query (messages snap) (length (messages snap)),
       fb_answer = content msg, fb_rating = rating\<rparr>
   \<and> effects (snd (handleFeedback_begin snap msg rating st)) =
        effects st @ [Request (PostChatFeedback (fst (handleFeedback_begin snap msg rating st)))]
   \<and> messages (snd (handleFeedback_begin snap msg rating st)) = messages st
   \<and> (\<forall>i. (\<forall>m \<in> set (drop i (messages snap)). role m \<noteq> ''user'') \<longrightarrow>
          fb_query (fst (handleFeedback_begin snap msg rating st))
            = preceding_user_query (messages snap) i)
   \<and> userQuery (messages (handleSend_echo q now st)) = q"
proof -
  have a: "fst (handleFeedback_begin snap msg rating st) =
      \<lparr>fb_query = preceding_user_query (messages snap) (length (messages snap)),
       fb_answer = content msg, fb_rating = rating\<rparr>"
    by (simp add: handleFeedback_begin_def submitFeedback_def userQuery_whole Let_def)
  have b: "effects (snd (handleFeedback_begin snap msg rating st)) =
        effects st @ [Request (PostChatFeedback (fst (handleFeedback_begin snap msg rating st)))]"
    "messages (snd (handleFeedback_begin snap msg rating st)) = messages st"
    by (simp_all add: handleFeedback_begin_def Let_def)
  have c: "fb_query (fst (handleFeedback_begin snap msg rating st))
            = preceding_user_query (messages snap) i"
    if "\<forall>m \<in> set (drop i (messages snap)). role m \<noteq> ''user''" for i
    using preceding_user_query_later[OF that] a by simp
  have d: "userQuery (messages (handleSend_echo q now st)) = q"
    by (simp add: userQuery_whole preceding_user_query_def handleSend_echo_def userMessage_def)
  from a b c d show ?thesis by blast
qed

theorem feedback_payload_witness:
  "messages long_session ! 3 = answered_again
   \<and> role answered_again \<noteq> ''user''
   \<and> fst (handleFeedback_begin long_session answered_again ''positive'' long_session) =
       \<lparr>fb_query = ''And on Fridays?'', fb_answer = Some ''Jeans are fine.'',
        fb_rating = ''positive''\<rparr>
   \<and> preceding_user_query (messages long_session) 3 = ''And on Fridays?''"
proof -
  have h: "\<forall>m \<in> set (drop 3 (messages long_session)). role m \<noteq> ''user''"
    by (simp add: long_session_def initial_state_def answered_again_def)
  have p: "preceding_user_query (messages long_session) 3 = ''And on Fridays?''"
    by (simp add: preceding_user_query_def long_session_def initial_state_def asked_def
        answered_def followup_def userMessage_def)
  from feedback_payload[of long_session answered_again "''positive''" long_session]
  have "fst (handleFeedback_begin long_session answered_again ''positive'' long_session) =
      \<lparr>fb_query = preceding_user_query (messages long_session) (length (messages long_session)),
       fb_answer = content answered_again, fb_rating = ''positive''\<rparr>"
    and "fb_query (fst (handleFeedback_begin long_session answered_again ''positive'' long_session))
            = preceding_user_query (messages long_session) 3"
    using h by blast+
  then have "fst (handleFeedback_begin long_session answered_again ''positive'' long_session) =
       \<lparr>fb_query = ''And on Fridays?'', fb_answer = Some ''Jeans are fine.'',
        fb_rating = ''positive''\<rparr>"
    using p by (simp add: answered_again_def)
  then show ?thesis
    using p by (simp add: long_session_def initial_state_def answered_again_def)
qed

section \<open>The export\<close>

lemma foldl_appends: "foldl (\<lambda>acc x. acc @ f x) h xs = h @ concat (map f xs)"
  by (induction xs arbitrary: h) simp_all

lemma forEach_cite_appends: "forEach_cite big acc cite = acc @ cite_lines big cite"
  by (simp add: forEach_cite_def cite_lines_def Let_def)

lemma foldl_forEach_cite: "foldl (forEach_cite big) h cs = h @ concat (map (cite_lines big) cs)"
proof -
  have "forEach_cite big = (\<lambda>acc x. acc @ cite_lines big x)"
    by (intro ext) (rule forEach_cite_appends)
  then show ?thesis
    by (simp only: foldl_appends)
qed

lemma forEach_msg_appends: "forEach_msg big acc msg = acc @ message_block big msg"
  by (cases "citations msg"; cases "confidence msg")
    (simp_all add: forEach_msg_def message_block_def sources_block_def confidence_line_def
      foldl_forEach_cite Let_def)

lemma render_blocks:
  "render big localeNow msgs lang =
     header localeNow lang @ concat (map (message_block big) msgs) @ footer msgs"
proof -
  have "forEach_msg big = (\<lambda>acc x. acc @ message_block big x)"
    by (intro ext) (rule forEach_msg_appends)
  then show ?thesis
    by (simp only: render_def foldl_appends append_assoc)
qed

lemma count_roles:
  assumes "\<forall>m \<in> set msgs. role m = ''user'' \<or> role m = ''assistant''"
  shows "length (filter (\<lambda>m. role m = ''user'') msgs)
       + length (filter (\<lambda>m. role m = ''assistant'') msgs) = length msgs"
  using assms by (induction msgs) auto

lemma sublist_concat_member:
  assumes "x \<in> set xs"
  shows "sublist x (concat xs)"
proof -
  from assms obtain ps ss where "xs = ps @ x # ss"
    by (auto dest: split_list)
  then have "concat xs = concat ps @ x @ concat ss" by simp
  then show ?thesis
    by (metis sublist_appendI)
qed

text \<open>
  C8, as stated, fails in three places, each behind a test the code makes: an empty
  transcript is not rendered at all, a confidence of zero is present but prints no
  confidence line, and an empty list of citations is present but prints no sources.
\<close>

theorem export_layout_counterexample:
  "fst (downloadChat no_exponent_form ''5/1/2024, 9:05:00 AM'' 1714554300000
          initial_state initial_state) = None
   \<and> fst (downloadChat no_exponent_form ''5/1/2024, 9:05:00 AM'' 1714554300000
          unsure_session unsure_session)
       = Some (render no_exponent_form ''5/1/2024, 9:05:00 AM'' [asked, unsure] ''English'')
   \<and> confidence unsure = Some 0
   \<and> \<not> sublist ''Confidence Score''
         (render no_exponent_form ''5/1/2024, 9:05:00 AM'' [asked, unsure] ''English'')
   \<and> citations unsure = Some []
   \<and> \<not> sublist ''Sources Referenced''
         (render no_exponent_form ''5/1/2024, 9:05:00 AM'' [asked, unsure] ''English'')"
proof -
  have "fst (downloadChat no_exponent_form ''5/1/2024, 9:05:00 AM'' 1714554300000
          initial_state initial_state) = None"
    by (simp add: downloadChat_def initial_state_def)
  moreover have "fst (downloadChat no_exponent_form ''5/1/2024, 9:05:00 AM'' 1714554300000
          unsure_session unsure_session)
       = Some (render no_exponent_form ''5/1/2024, 9:05:00 AM'' [asked, unsure] ''English'')"
    by (simp add: downloadChat_def unsure_session_def initial_state_def Let_def)
  moreover have "\<not> sublist ''Confidence Score''
         (render no_exponent_form ''5/1/2024, 9:05:00 AM'' [asked, unsure] ''English'')"
    by code_simp
  moreover have "\<not> sublist ''Sources Referenced''
         (render no_exponent_form ''5/1/2024, 9:05:00 AM'' [asked, unsure] ''English'')"
    by code_simp
  ultimately show ?thesis
    by (simp add: unsure_def)
qed

text \<open>
  C8, amended.  Nothing is rendered for an empty transcript.  For a transcript of \<open>N \<ge> 1\<close>
  messages the text handed to the browser is the header, then exactly \<open>N\<close> blocks in
  transcript order, then the footer.  A block is the role in upper case and a colon, the
  content, a part that starts \<open>Sources Referenced:\<close> exactly when the message has a list
  of citations that is not empty, a line that starts \<open>Confidence Score:\<close> exactly when the
  message has a confidence other than zero, and the rule.  The footer gives the number of
  messages, of user messages and of assistant messages, and the last two add up to \<open>N\<close>
  when every role is \<open>user\<close> or \<open>assistant\<close>.
\<close>

theorem export_layout:
  "(messages snap = [] \<longrightarrow> fst (downloadChat big localeNow millis snap st) = None)
   \<and> (messages snap \<noteq> [] \<longrightarrow>
        fst (downloadChat big localeNow millis snap st) =
          Some (header localeNow (language snap)
                @ concat (map (message_block big) (messages snap))
                @ footer (messages snap)))
   \<and> length (map (message_block big) (messages snap)) = length (messages snap)
   \<and> (\<forall>m. message_block big m =
          toUpperCase (role m) @ '':\<newline>'' @ template (content m) @ ''\<newline>'' @
          sources_block big m @ confidence_line big m @
          ''\<newline>'' @ replicate 70 (CHR ''-'') @ ''\<newline>\<newline>'')
   \<and> toUpperCase ''user'' = ''USER'' \<and> toUpperCase ''assistant'' = ''ASSISTANT''
   \<and> (\<forall>m. (sources_block big m \<noteq> []) = (\<exists>cs. citations m = Some cs \<and> cs \<noteq> []))
   \<and> (\<forall>m. sources_block big m = []
          \<or> prefix ''\<newline>Sources Referenced:\<newline>'' (sources_block big m))
   \<and> (\<forall>m. (confidence_line big m \<noteq> []) = (\<exists>k. confidence m = Some k \<and> k \<noteq> 0))
   \<and> (\<forall>m. confidence_line big m = []
          \<or> prefix ''\<newline>Confidence Score: '' (confidence_line big m))
   \<and> footer (messages snap) =
        ''\<newline>Session Statistics:\<newline>'' @
        ''Total Messages: '' @ digits (length (messages snap)) @ ''\<newline>'' @
        ''Questions Asked: '' @
          digits (length (filter (\<lambda>m. role m = ''user'') (messages snap))) @ ''\<newline>'' @
        ''Answers Provided: '' @
          digits (length (filter (\<lambda>m. role m = ''assistant'') (messages snap))) @ ''\<newline>''
   \<and> ((\<forall>m \<in> set (messages snap). role m = ''user'' \<or> role m = ''assistant'') \<longrightarrow>
        length (filter (\<lambda>m. role m = ''user'') (messages snap))
          + length (filter (\<lambda>m. role m = ''assistant'') (messages snap))
        = length (messages snap))"
proof -
  have a: "messages snap = [] \<longrightarrow> fst (downloadChat big localeNow millis snap st) = None"
    by (simp add: downloadChat_def)
  have b: "messages snap \<noteq> [] \<longrightarrow>
        fst (downloadChat big localeNow millis snap st) =
          Some (header localeNow (language snap)
                @ concat (map (message_block big) (messages snap))
                @ footer (messages snap))"
    by (simp add: downloadChat_def render_blocks Let_def)
  have c: "message_block big m =
          toUpperCase (role m) @ '':\<newline>'' @ template (content m) @ ''\<newline>'' @
          sources_block big m @ confidence_line big m @
          ''\<newline>'' @ replicate 70 (CHR ''-'') @ ''\<newline>\<newline>''" for m
    by (simp add: message_block_def repeat_def)
  have d: "toUpperCase ''user'' = ''USER''" "toUpperCase ''assistant'' = ''ASSISTANT''"
    by (simp_all add: toUpperCase_def upper_char_def)
  have e: "(sources_block big m \<noteq> []) = (\<exists>cs. citations m = Some cs \<and> cs \<noteq> [])"
    "sources_block big m = [] \<or> prefix ''\<newline>Sources Referenced:\<newline>'' (sources_block big m)"
    for m
    by (cases "citations m"; simp add: sources_block_def)+
  have f: "(confidence_line big m \<noteq> []) = (\<exists>k. confidence m = Some k \<and> k \<noteq> 0)"
    "confidence_line big m = [] \<or> prefix ''\<newline>Confidence Score: '' (confidence_line big m)"
    for m
    by (cases "confidence m"; simp add: confidence_line_def)+
  have g: "footer (messages snap) =
        ''\<newline>Session Statistics:\<newline>'' @
        ''Total Messages: '' @ digits (length (messages snap)) @ ''\<newline>'' @
        ''Questions Asked: '' @
          digits (length (filter (\<lambda>m. role m = ''user'') (messages snap))) @ ''\<newline>'' @
        ''Answers Provided: '' @
          digits (length (filter (\<lambda>m. role m = ''assistant'') (messages snap))) @ ''\<newline>''"
    by (simp add: footer_def)
  have h: "(\<forall>m \<in> set (messages snap). role m = ''user'' \<or> role m = ''assistant'') \<longrightarrow>
        length (filter (\<lambda>m. role m = ''user'') (messages snap))
          + length (filter (\<lambda>m. role m = ''assistant'') (messages snap))
        = length (messages snap)"
    using count_roles by blast
  show ?thesis
    using a b c d e f g h by (intro conjI allI) (simp_all only: length_map)
qed

theorem export_layout_witness:
  "messages session \<noteq> []
   \<and> fst (downloadChat no_exponent_form ''5/1/2024, 9:05:00 AM'' 1714554300000 session session)
      = Some (''OnboardIQ - Chat Session Export\<newline>'' @
              ''Downloaded: 5/1/2024, 9:05:00 AM\<newline>'' @
              ''Language: Spanish\<newline>'' @
              replicate 70 (CHR ''='') @ ''\<newline>\<newline>'' @
              ''USER:\<newline>What is the dress code?\<newline>'' @
              ''\<newline>'' @ replicate 70 (CHR ''-'') @ ''\<newline>\<newline>'' @
              ''ASSISTANT:\<newline>Business casual.\<newline>'' @
              ''\<newline>Sources Referenced:\<newline>'' @
              ''  - policy.pdf - Page 2\<newline>'' @
              ''    Relevance: 75.0%\<newline>'' @
              ''\<newline>Confidence Score: 50%\<newline>'' @
              ''\<newline>'' @ replicate 70 (CHR ''-'') @ ''\<newline>\<newline>'' @
              ''\<newline>Session Statistics:\<newline>'' @
              ''Total Messages: 2\<newline>'' @
              ''Questions Asked: 1\<newline>'' @
              ''Answers Provided: 1\<newline>'')
   \<and> map role (messages session) = [''user'', ''assistant'']
   \<and> length (filter (\<lambda>m. role m = ''user'') (messages session))
        + length (filter (\<lambda>m. role m = ''assistant'') (messages session)) = 2"
proof -
  have ne: "messages session \<noteq> []"
    by (simp add: session_def initial_state_def)
  have roles: "map role (messages session) = [''user'', ''assistant'']"
    by (simp add: session_def initial_state_def asked_def answered_def userMessage_def)
  then have all: "\<forall>m \<in> set (messages session). role m = ''user'' \<or> role m = ''assistant''"
    by (simp add: session_def initial_state_def asked_def answered_def userMessage_def)
  have ev: "header ''5/1/2024, 9:05:00 AM'' (language session)
        @ concat (map (message_block no_exponent_form) (messages session))
        @ footer (messages session)
      = ''OnboardIQ - Chat Session Export\<newline>'' @
              ''Downloaded: 5/1/2024, 9:05:00 AM\<newline>'' @
              ''Language: Spanish\<newline>'' @
              replicate 70 (CHR ''='') @ ''\<newline>\<newline>'' @
              ''USER:\<newline>What is the dress code?\<newline>'' @
              ''\<newline>'' @ replicate 70 (CHR ''-'') @ ''\<newline>\<newline>'' @
              ''ASSISTANT:\<newline>Business casual.\<newline>'' @
              ''\<newline>Sources Referenced:\<newline>'' @
              ''  - policy.pdf - Page 2\<newline>'' @
              ''    Relevance: 75.0%\<newline>'' @
              ''\<newline>Confidence Score: 50%\<newline>'' @
              ''\<newline>'' @ replicate 70 (CHR ''-'') @ ''\<newline>\<newline>'' @
              ''\<newline>Session Statistics:\<newline>'' @
              ''Total Messages: 2\<newline>'' @
              ''Questions Asked: 1\<newline>'' @
              ''Answers Provided: 1\<newline>''"
    by code_simp
  from export_layout[of session no_exponent_form "''5/1/2024, 9:05:00 AM''" 1714554300000 session]
  have "fst (downloadChat no_exponent_form ''5/1/2024, 9:05:00 AM'' 1714554300000 session session) =
          Some (header ''5/1/2024, 9:05:00 AM'' (language session)
                @ concat (map (message_block no_exponent_form) (messages session))
                @ footer (messages session))"
    and "length (filter (\<lambda>m. role m = ''user'') (messages session))
          + length (filter (\<lambda>m. role m = ''assistant'') (messages session))
        = length (messages session)"
    using ne all by blast+
  then show ?thesis
    using ne roles ev by (simp add: session_def initial_state_def)
qed

section \<open>The round-trip example\<close>

lemma confidence_87: "toFixed big (fl_mul (json_number (87 / 100)) 100) 0 = ''87''"
  by code_simp

lemma relevance_91: "toFixed big (fl_mul (json_number (91 / 100)) 100) 1 = ''91.0''"
  by code_simp

lemma json_number_87_nonzero: "json_number (87 / 100) \<noteq> 0"
  by code_simp

lemma sublist_between:
  assumes "sublist xs ys"
  shows "sublist xs (ps @ ys @ ss)"
  using assms sublist_appendI[of ys ps ss] by (rule sublist_order.order.trans)

lemma sublist_in_block:
  "sublist xs (sources_block big m) \<Longrightarrow> sublist xs (message_block big m)"
  "sublist xs (confidence_line big m) \<Longrightarrow> sublist xs (message_block big m)"
proof -
  have "message_block big m =
      (toUpperCase (role m) @ '':\<newline>'' @ template (content m) @ ''\<newline>'') @
      sources_block big m @
      (confidence_line big m @ ''\<newline>'' @ repeat ''-'' 70 @ ''\<newline>\<newline>'')"
    by (simp add: message_block_def)
  then show "sublist xs (sources_block big m) \<Longrightarrow> sublist xs (message_block big m)"
    by (simp only: sublist_between)
  have "message_block big m =
      (toUpperCase (role m) @ '':\<newline>'' @ template (content m) @ ''\<newline>'' @
       sources_block big m) @
      confidence_line big m @ (''\<newline>'' @ repeat ''-'' 70 @ ''\<newline>\<newline>'')"
    by (simp add: message_block_def)
  then show "sublist xs (confidence_line big m) \<Longrightarrow> sublist xs (message_block big m)"
    by (simp only: sublist_between)
qed

lemma sublist_in_render:
  assumes "m \<in> set msgs" and "sublist xs (message_block big m)"
  shows "sublist xs (render big localeNow msgs lang)"
proof -
  from assms(1) have "sublist (message_block big m) (concat (map (message_block big) msgs))"
    by (intro sublist_concat_member) simp
  with assms(2) have "sublist xs (concat (map (message_block big) msgs))"
    by (rule sublist_order.order.trans)
  then have "sublist xs (header localeNow lang @ concat (map (message_block big) msgs) @ footer msgs)"
    by (rule sublist_between)
  then show ?thesis
    by (simp only: render_blocks)
qed

text \<open>
  C9.  For the transcript of the example, whatever the timestamps, the text of the answer
  and the selected language: the confidence line of the answer reads
  \<open>Confidence Score: 87%\<close>, its citation reads \<open>Relevance: 91.0%\<close>, and both stand in the
  export, which the download hands over.  The percentages are computed as the code does,
  on doubles: \<open>0.87 * 100\<close> and \<open>0.91 * 100\<close> round to \<open>87\<close> and \<open>91\<close>.
\<close>

theorem leave_days_export:
  "confidence_line big (leave_answer a t2 sid) = ''\<newline>Confidence Score: 87%\<newline>''
   \<and> sources_block big (leave_answer a t2 sid) =
        ''\<newline>Sources Referenced:\<newline>  - hr.pdf - Page 4\<newline>    Relevance: 91.0%\<newline>''
   \<and> sublist ''Confidence Score: 87%''
        (render big localeNow (leave_transcript t1 a t2 sid t3) lang)
   \<and> sublist ''Relevance: 91.0%''
        (render big localeNow (leave_transcript t1 a t2 sid t3) lang)
   \<and> fst (downloadChat big localeNow millis
            (st\<lparr>messages := leave_transcript t1 a t2 sid t3, language := lang\<rparr>) st')
        = Some (render big localeNow (leave_transcript t1 a t2 sid t3) lang)"
proof -
  let ?m = "leave_answer a t2 sid"
  have c: "confidence_line big ?m = ''\<newline>Confidence Score: 87%\<newline>''"
    by (simp add: confidence_line_def leave_answer_def confidence_87 json_number_87_nonzero)
  have "show_int big 4 = ''4''"
    by code_simp
  then have s: "sources_block big ?m =
        ''\<newline>Sources Referenced:\<newline>  - hr.pdf - Page 4\<newline>    Relevance: 91.0%\<newline>''"
    by (simp add: sources_block_def leave_answer_def cite_lines_def relevance_91 del: One_nat_def)
  have mem: "?m \<in> set (leave_transcript t1 a t2 sid t3)"
    by (simp add: leave_transcript_def)
  have "sublist ''Confidence Score: 87%'' ''\<newline>Confidence Score: 87%\<newline>''"
    by code_simp
  then have "sublist ''Confidence Score: 87%'' (message_block big ?m)"
    using c by (intro sublist_in_block(2)) simp
  then have r1: "sublist ''Confidence Score: 87%''
        (render big localeNow (leave_transcript t1 a t2 sid t3) lang)"
    using mem by (rule sublist_in_render[rotated])
  have "sublist ''Relevance: 91.0%''
      ''\<newline>Sources Referenced:\<newline>  - hr.pdf - Page 4\<newline>    Relevance: 91.0%\<newline>''"
    by code_simp
  then have "sublist ''Relevance: 91.0%'' (message_block big ?m)"
    using s by (intro sublist_in_block(1)) simp
  then have r2: "sublist ''Relevance: 91.0%''
        (render big localeNow (leave_transcript t1 a t2 sid t3) lang)"
    using mem by (rule sublist_in_render[rotated])
  have d: "fst (downloadChat big localeNow millis
            (st\<lparr>messages := leave_transcript t1 a t2 sid t3, language := lang\<rparr>) st')
        = Some (render big localeNow (leave_transcript t1 a t2 sid t3) lang)"
    by (simp add: downloadChat_def leave_transcript_def Let_def)
  from c s r1 r2 d show ?thesis by blast
qed

section \<open>The model of doubles\<close>

text \<open>
  \<open>exponent\<close> is the binary exponent, \<open>round_half_even\<close> is within one half of its argument
  and takes the even neighbour on a tie, and \<open>fl_round\<close> is within half a unit in the last
  place.  Two known doubles check the model: the double of \<open>0.1\<close>, and the product
  \<open>0.57 * 100\<close>, which is \<open>56.99999999999999\<close> and not \<open>57\<close>.
\<close>

lemma bits_bounds:
  "0 < n \<Longrightarrow> 1 \<le> bits n \<and> 2 ^ nat (bits n - 1) \<le> n \<and> n < 2 ^ nat (bits n)"
proof (induction n rule: bits.induct)
  case (1 n)
  show ?case
  proof (cases "n = 1")
    case True
    have "bits 1 = 1"
      by (simp add: bits.simps[of 1] bits.simps[of 0])
    with True show ?thesis by simp
  next
    case False
    with "1.prems" have h: "0 < n div 2" by simp
    from "1.prems" have "\<not> n \<le> 0" by simp
    from "1.IH"[OF this h] have ih: "1 \<le> bits (n div 2)"
      "2 ^ nat (bits (n div 2) - 1) \<le> n div 2" "n div 2 < 2 ^ nat (bits (n div 2))"
      by simp_all
    have b: "bits n = 1 + bits (n div 2)"
      using "1.prems" by (simp add: bits.simps[of n])
    have e1: "nat (bits n - 1) = Suc (nat (bits (n div 2) - 1))"
      using b ih(1) by simp
    have e2: "nat (bits n) = Suc (nat (bits (n div 2)))"
      using b ih(1) by simp
    have "2 * 2 ^ nat (bits (n div 2) - 1) \<le> n"
      using ih(2) by linarith
    moreover have "n < 2 * 2 ^ nat (bits (n div 2))"
      using ih(3) by linarith
    ultimately show ?thesis
      using b ih(1) e1 e2 by simp
  qed
qed

lemma powi_split:
  "(2::rat) powi (a - b - 1) = 2 powi (a - 1) / 2 powi b"
  "(2::rat) powi a / 2 powi (b - 1) = 2 powi (a - b + 1)"
proof -
  have "(2::rat) powi ((a - 1) - b) = 2 powi (a - 1) / 2 powi b"
    by (rule power_int_diff) simp
  moreover have "(a - 1) - b = a - b - 1" by simp
  ultimately show "(2::rat) powi (a - b - 1) = 2 powi (a - 1) / 2 powi b"
    by metis
  have "(2::rat) powi (a - (b - 1)) = 2 powi a / 2 powi (b - 1)"
    by (rule power_int_diff) simp
  moreover have "a - (b - 1) = a - b + 1" by simp
  ultimately show "(2::rat) powi a / 2 powi (b - 1) = 2 powi (a - b + 1)"
    by metis
qed

lemma exponent_bounds:
  assumes "x \<noteq> 0"
  shows "2 powi exponent x \<le> \<bar>x\<bar> \<and> \<bar>x\<bar> < 2 powi (exponent x + 1)"
proof -
  obtain p q where pq: "quotient_of \<bar>x\<bar> = (p, q)" by force
  then have q: "0 < q" by (rule quotient_of_denom_pos)
  have x: "\<bar>x\<bar> = of_int p / of_int q"
    using pq by (rule quotient_of_div)
  have "0 < \<bar>x\<bar>" using assms by simp
  then have p: "0 < p"
    using x q by (simp add: zero_less_divide_iff)
  let ?a = "bits p" and ?b = "bits q"
  from bits_bounds[OF p] have a: "1 \<le> ?a" "2 ^ nat (?a - 1) \<le> p" "p < 2 ^ nat ?a" by simp_all
  from bits_bounds[OF q] have b: "1 \<le> ?b" "2 ^ nat (?b - 1) \<le> q" "q < 2 ^ nat ?b" by simp_all
  have pa: "(2::rat) powi (?a - 1) \<le> of_int p" "of_int p < (2::rat) powi ?a"
  proof -
    have "(of_int (2 ^ nat (?a - 1)) :: rat) \<le> of_int p"
      using a(2) by (simp only: of_int_le_iff)
    then show "(2::rat) powi (?a - 1) \<le> of_int p"
      using a(1) by (simp add: power_int_def)
    have "(of_int p :: rat) < of_int (2 ^ nat ?a)"
      using a(3) by (simp only: of_int_less_iff)
    then show "of_int p < (2::rat) powi ?a"
      using a(1) by (simp add: power_int_def)
  qed
  have qb: "(2::rat) powi (?b - 1) \<le> of_int q" "of_int q < (2::rat) powi ?b"
  proof -
    have "(of_int (2 ^ nat (?b - 1)) :: rat) \<le> of_int q"
      using b(2) by (simp only: of_int_le_iff)
    then show "(2::rat) powi (?b - 1) \<le> of_int q"
      using b(1) by (simp add: power_int_def)
    have "(of_int q :: rat) < of_int (2 ^ nat ?b)"
      using b(3) by (simp only: of_int_less_iff)
    then show "of_int q < (2::rat) powi ?b"
      using b(1) by (simp add: power_int_def)
  qed
  have qpos: "(0::rat) < of_int q" using q by simp
  have lower: "(2::rat) powi (?a - ?b - 1) \<le> \<bar>x\<bar>"
  proof -
    have "(2::rat) powi (?a - ?b - 1) = 2 powi (?a - 1) / 2 powi ?b"
      by (rule powi_split)
    also have "\<dots> \<le> of_int p / 2 powi ?b"
      using pa(1) by (simp add: divide_right_mono)
    also have "\<dots> \<le> of_int p / of_int q"
      using qb(2) qpos p by (simp add: frac_le)
    finally show ?thesis using x by simp
  qed
  have upper: "\<bar>x\<bar> < (2::rat) powi (?a - ?b + 1)"
  proof -
    have "of_int p / of_int q < (2::rat) powi ?a / of_int q"
      using pa(2) qpos by (simp add: divide_strict_right_mono)
    also have "\<dots> \<le> 2 powi ?a / 2 powi (?b - 1)"
      using qb(1) by (simp add: frac_le)
    also have "\<dots> = 2 powi (?a - ?b + 1)"
      by (rule powi_split)
    finally show ?thesis using x by simp
  qed
  show ?thesis
  proof (cases "2 powi (?a - ?b) \<le> \<bar>x\<bar>")
    case True
    then have "exponent x = ?a - ?b"
      using pq by (simp add: exponent_def)
    with True upper show ?thesis by simp
  next
    case False
    then have "exponent x = ?a - ?b - 1"
      using pq by (simp add: exponent_def)
    with False lower show ?thesis by simp
  qed
qed

lemma round_half_even_near: "\<bar>of_int (round_half_even r) - r\<bar> \<le> 1 / 2"
proof -
  have "of_int \<lfloor>r\<rfloor> \<le> r" "r < of_int \<lfloor>r\<rfloor> + 1"
    by linarith+
  then show ?thesis
    by (auto simp: round_half_even_def Let_def abs_le_iff)
qed

lemma round_half_even_tie:
  assumes "r - of_int \<lfloor>r\<rfloor> = 1 / 2"
  shows "even (round_half_even r)"
  using assms by (simp add: round_half_even_def Let_def)

lemma fl_round_near:
  assumes "x \<noteq> 0"
  shows "\<bar>fl_round x - x\<bar> \<le> 2 powi (max (exponent x) (- 1022) - 53)"
proof -
  let ?u = "(2::rat) powi (max (exponent x) (- 1022) - 52)"
  have u: "0 < ?u" by simp
  have "fl_round x - x = (of_int (round_half_even (x / ?u)) - x / ?u) * ?u"
    using assms u by (simp add: fl_round_def Let_def algebra_simps)
  then have "\<bar>fl_round x - x\<bar> = \<bar>of_int (round_half_even (x / ?u)) - x / ?u\<bar> * ?u"
    using u by (simp add: abs_mult)
  also have "\<dots> \<le> 1 / 2 * ?u"
    using round_half_even_near[of "x / ?u"] u by (intro mult_right_mono) simp_all
  also have "1 / 2 * ?u = 2 powi (max (exponent x) (- 1022) - 52 - 1)"
    using power_int_diff[of "2::rat" "max (exponent x) (- 1022) - 52" 1] by simp
  also have "max (exponent x) (- 1022) - 52 - 1 = max (exponent x) (- 1022) - 53"
    by simp
  finally show ?thesis .
qed

lemma double_of_one_tenth: "json_number (1 / 10) = 3602879701896397 / 36028797018963968"
  by code_simp

lemma double_product_057: "fl_mul (json_number (57 / 100)) 100 = 8022036836253695 / 140737488355328"
  by code_simp

end
